theory Spec2Isabelle
  imports Main "HOL-Library.Word"
begin

unbundle bit_operations_syntax

section \<open>The automation class of The Sleuth Kit (tsk3/auto/auto.cpp)\<close>

text \<open>
  A shallow embedding of \<^verbatim>\<open>TskAuto\<close>: the session, the two callbacks handed to the
  walkers of the C library, the file-system and volume-system entry points, the attribute
  enumeration and the predicates on directory entries.  Every method is a function that
  takes the state it works on and returns its result together with the new state.
\<close>

subsection \<open>Result domains\<close>

text \<open>
  Modelled from the spec: the three enumerations the methods translate between are declared
  in \<^verbatim>\<open>tsk_base.h\<close>, which is not among the sources.  The spec gives each domain three
  values: the filter verdict (accept, skip, stop), the traversal outcome (ok, stopped, error)
  and the continuation signal of the walkers (continue, stop, error); the constructors carry
  the names the source uses for them.  The source compares a \<^verbatim>\<open>TSK_RETVAL_ENUM\<close> against
  \<^verbatim>\<open>TSK_OK\<close>, \<^verbatim>\<open>TSK_ERR\<close> and \<^verbatim>\<open>TSK_STOP\<close> and lets every other value fall through;
  \<^verbatim>\<open>TSK_COR\<close> is such a value, which a hook is free to return.
\<close>

datatype TSK_RETVAL_ENUM = TSK_OK | TSK_ERR | TSK_COR | TSK_STOP

datatype TSK_FILTER_ENUM = TSK_FILTER_CONT | TSK_FILTER_STOP | TSK_FILTER_SKIP

datatype TSK_WALK_RET_ENUM = TSK_WALK_CONT | TSK_WALK_STOP | TSK_WALK_ERROR

subsection \<open>Machine types and handles of the C library\<close>

type_synonym uint8_t = "8 word"
type_synonym TSK_OFF_T = "64 word"
type_synonym TSK_DADDR_T = "64 word"
type_synonym TSK_INUM_T = "64 word"
type_synonym TSK_PNUM_T = "32 word"
type_synonym enum_flags = "32 word"

text \<open>
  Modelled from the spec: the structures of the C library are declared in its headers, which
  are not among the sources.  Each record below holds the fields that the source reads, under
  the names the source uses, with the width of the C type.  An image handle is opaque for this
  layer: a non-null pointer, told apart by its address.
\<close>

type_synonym TSK_IMG_INFO = nat

text \<open>The arguments of \<^verbatim>\<open>tsk_img_open\<close>.\<close>

record img_request =
  a_numImg :: int
  a_images :: "string list"
  a_imgType :: enum_flags
  a_sSize :: "32 word"

record TSK_VS_INFO =
  vs_offset :: TSK_DADDR_T
  block_size :: "32 word"
  part_count :: TSK_PNUM_T

record TSK_VS_PART_INFO =
  vs :: TSK_VS_INFO
  start :: TSK_DADDR_T
  len :: TSK_DADDR_T
  part_flags :: enum_flags

record TSK_FS_INFO =
  fs_offset :: TSK_OFF_T
  root_inum :: TSK_INUM_T
  ftype :: enum_flags

text \<open>
  \<^verbatim>\<open>TSK_FS_NAME\<close>: \<open>name\<close> is the character buffer of \<open>name_size\<close> bytes that holds the
  NUL-terminated entry name, \<open>type\<close> the entry type and \<open>flags\<close> the allocation flags.
\<close>

record TSK_FS_NAME =
  name :: "char list"
  name_size :: nat
  meta_addr :: TSK_INUM_T
  type :: enum_flags
  flags :: enum_flags

record TSK_FS_ATTR =
  attr_type :: enum_flags
  attr_flags :: enum_flags

text \<open>
  \<^verbatim>\<open>TSK_FS_FILE\<close>: both pointers of the structure may be null.  Its \<^verbatim>\<open>name\<close> pointer is
  the field \<open>fs_name\<close>, since \<open>name\<close> is the buffer of \<^verbatim>\<open>TSK_FS_NAME\<close>.
\<close>

record TSK_FS_FILE =
  fs_name :: "TSK_FS_NAME option"
  fs_info :: "TSK_FS_INFO option"

text \<open>
  Modelled from the spec: the constants below are declared in the headers of the C library
  (\<^verbatim>\<open>tsk_auto.h\<close>, \<^verbatim>\<open>tsk_vs.h\<close>, \<^verbatim>\<open>tsk_fs.h\<close>), which are not among the sources.  The
  spec calls \<^verbatim>\<open>TSK_AUTO_TAG\<close> a fixed sentinel value that a destroyed session no longer
  carries; the flags and entry types have the values of those headers.
\<close>

definition TSK_AUTO_TAG :: "32 word" where
  "TSK_AUTO_TAG = 0x9191ABAB"

definition TSK_VS_PART_FLAG_ALLOC :: enum_flags where
  "TSK_VS_PART_FLAG_ALLOC = 0x01"

definition TSK_FS_DIR_WALK_FLAG_RECURSE :: enum_flags where
  "TSK_FS_DIR_WALK_FLAG_RECURSE = 0x04"

definition TSK_FS_NAME_FLAG_ALLOC :: enum_flags where
  "TSK_FS_NAME_FLAG_ALLOC = 0x01"

definition TSK_FS_NAME_FLAG_UNALLOC :: enum_flags where
  "TSK_FS_NAME_FLAG_UNALLOC = 0x02"

definition TSK_FS_NAME_TYPE_DIR :: enum_flags where
  "TSK_FS_NAME_TYPE_DIR = 3"

definition TSK_FS_NAME_TYPE_REG :: enum_flags where
  "TSK_FS_NAME_TYPE_REG = 5"

subsection \<open>Predicates on directory entries\<close>

text \<open>The NUL character, and the C string held by a buffer.\<close>

definition NUL :: char where
  "NUL = CHR 0x00"

definition c_str :: "char list \<Rightarrow> char list" where
  "c_str buf = takeWhile (\<lambda>c. c \<noteq> NUL) buf"

text \<open>
  \<^verbatim>\<open>isDotDir\<close>, lines 406-421.  The first test reads the \<open>flags\<close> field of the name and
  masks it with the type constant \<^verbatim>\<open>TSK_FS_NAME_TYPE_DIR\<close>; the name is then compared byte
  by byte, each read guarded by \<open>name_size\<close> as in the source, so that no read leaves a
  buffer whose length is \<open>name_size\<close>.
\<close>

definition isDotDir :: "TSK_FS_FILE option \<Rightarrow> uint8_t" where
  "isDotDir a_fs_file =
     (case a_fs_file of
        None \<Rightarrow> 0
      | Some f \<Rightarrow>
          (case fs_name f of
             None \<Rightarrow> 0
           | Some n \<Rightarrow>
               if (flags n AND TSK_FS_NAME_TYPE_DIR) = 0 then 0
               else if name_size n \<ge> 2 \<and> name n ! 0 = CHR ''.''
                       \<and> (name n ! 1 = NUL
                            \<or> (name_size n > 2 \<and> name n ! 1 = CHR ''.'' \<and> name n ! 2 = NUL))
                    then 1
                    else 0))"

text \<open>\<^verbatim>\<open>isDir\<close> and \<^verbatim>\<open>isFile\<close>, lines 428-449: they compare the \<open>type\<close> field.\<close>

definition isDir :: "TSK_FS_FILE option \<Rightarrow> uint8_t" where
  "isDir a_fs_file =
     (case a_fs_file of
        None \<Rightarrow> 0
      | Some f \<Rightarrow>
          (case fs_name f of
             None \<Rightarrow> 0
           | Some n \<Rightarrow> if type n = TSK_FS_NAME_TYPE_DIR then 1 else 0))"

definition isFile :: "TSK_FS_FILE option \<Rightarrow> uint8_t" where
  "isFile a_fs_file =
     (case a_fs_file of
        None \<Rightarrow> 0
      | Some f \<Rightarrow>
          (case fs_name f of
             None \<Rightarrow> 0
           | Some n \<Rightarrow> if type n = TSK_FS_NAME_TYPE_REG then 1 else 0))"

subsection \<open>The session, the error slot and the log of calls\<close>

text \<open>
  What this layer does to the outside is a call of the C library or of a hook of the derived
  class.  Each such call is logged, in order, with its arguments and what it returned.
\<close>

datatype event =
    EvImgOpen img_request "TSK_IMG_INFO option"
  | EvImgClose TSK_IMG_INFO
  | EvVsOpen TSK_IMG_INFO TSK_OFF_T "TSK_VS_INFO option"
  | EvVsPartWalk TSK_VS_INFO TSK_PNUM_T TSK_PNUM_T enum_flags
  | EvVsClose TSK_VS_INFO
  | EvFsOpen TSK_IMG_INFO TSK_OFF_T "TSK_FS_INFO option"
  | EvFsDirWalk TSK_FS_INFO TSK_INUM_T enum_flags
  | EvFsClose TSK_FS_INFO
  | EvErrorReset
  | EvErrorPrint nat
  | EvStderr string
  | EvFilterVol TSK_VS_PART_INFO TSK_FILTER_ENUM
  | EvFilterFs TSK_FS_INFO TSK_FILTER_ENUM
  | EvProcessFile TSK_FS_FILE string TSK_RETVAL_ENUM
  | EvProcessAttribute int TSK_RETVAL_ENUM

text \<open>
  The members of \<^verbatim>\<open>TskAuto\<close> (\<open>m_img_info\<close> is \<open>None\<close> for the null pointer), the last-error
  slot of the C library (\<open>0\<close> when no error is set), the log, and the state \<open>user\<close> that the
  derived class adds and its hooks work on.
\<close>

record 'u world =
  m_img_info :: "TSK_IMG_INFO option"
  m_tag :: "32 word"
  m_volFilterFlags :: enum_flags
  m_fileFilterFlags :: enum_flags
  tsk_errno :: nat
  trace :: "event list"
  user :: 'u

text \<open>
  The C library and the virtual methods are parameters of the embedding.  An open returns the
  handle (\<open>Inr\<close>) or fails with an error code (\<open>Inl\<close>); the two walkers take the callback and
  the state and are not constrained further; a hook reads and writes the state of the derived
  class and returns its verdict.
\<close>

record 'u env =
  tsk_verbose :: bool
  tsk_img_open :: "img_request \<Rightarrow> nat + TSK_IMG_INFO"
  tsk_vs_open :: "TSK_IMG_INFO \<Rightarrow> TSK_OFF_T \<Rightarrow> nat + TSK_VS_INFO"
  tsk_fs_open_img :: "TSK_IMG_INFO \<Rightarrow> TSK_OFF_T \<Rightarrow> nat + TSK_FS_INFO"
  tsk_vs_part_walk :: "TSK_VS_INFO \<Rightarrow> TSK_PNUM_T \<Rightarrow> TSK_PNUM_T \<Rightarrow> enum_flags
      \<Rightarrow> (TSK_VS_INFO \<Rightarrow> TSK_VS_PART_INFO \<Rightarrow> 'u world \<Rightarrow> TSK_WALK_RET_ENUM \<times> 'u world)
      \<Rightarrow> 'u world \<Rightarrow> uint8_t \<times> 'u world"
  tsk_fs_dir_walk :: "TSK_FS_INFO \<Rightarrow> TSK_INUM_T \<Rightarrow> enum_flags
      \<Rightarrow> (TSK_FS_FILE \<Rightarrow> string \<Rightarrow> 'u world \<Rightarrow> TSK_WALK_RET_ENUM \<times> 'u world)
      \<Rightarrow> 'u world \<Rightarrow> uint8_t \<times> 'u world"
  tsk_fs_file_attr_getsize :: "TSK_FS_FILE \<Rightarrow> int"
  tsk_fs_file_attr_get_idx :: "TSK_FS_FILE \<Rightarrow> int \<Rightarrow> TSK_FS_ATTR option"
  filterVol :: "TSK_VS_PART_INFO \<Rightarrow> 'u \<Rightarrow> TSK_FILTER_ENUM \<times> 'u"
  filterFs :: "TSK_FS_INFO \<Rightarrow> 'u \<Rightarrow> TSK_FILTER_ENUM \<times> 'u"
  processFile :: "TSK_FS_FILE \<Rightarrow> string \<Rightarrow> 'u \<Rightarrow> TSK_RETVAL_ENUM \<times> 'u"
  processAttribute :: "TSK_FS_FILE \<Rightarrow> TSK_FS_ATTR option \<Rightarrow> string \<Rightarrow> 'u \<Rightarrow> TSK_RETVAL_ENUM \<times> 'u"

definition log_event :: "event \<Rightarrow> 'u world \<Rightarrow> 'u world" where
  "log_event e s = s\<lparr>trace := trace s @ [e]\<rparr>"

subsection \<open>Calls of the C library\<close>

definition tsk_error_reset :: "'u world \<Rightarrow> 'u world" where
  "tsk_error_reset s = log_event EvErrorReset (s\<lparr>tsk_errno := 0\<rparr>)"

definition tsk_error_print :: "'u world \<Rightarrow> 'u world" where
  "tsk_error_print s = log_event (EvErrorPrint (tsk_errno s)) s"

definition tsk_img_close :: "TSK_IMG_INFO \<Rightarrow> 'u world \<Rightarrow> 'u world" where
  "tsk_img_close h s = log_event (EvImgClose h) s"

definition tsk_vs_close :: "TSK_VS_INFO \<Rightarrow> 'u world \<Rightarrow> 'u world" where
  "tsk_vs_close v s = log_event (EvVsClose v) s"

definition tsk_fs_close :: "TSK_FS_INFO \<Rightarrow> 'u world \<Rightarrow> 'u world" where
  "tsk_fs_close f s = log_event (EvFsClose f) s"

text \<open>An open that fails returns the null pointer and leaves its error code in the slot.\<close>

definition call_img_open :: "'u env \<Rightarrow> img_request \<Rightarrow> 'u world \<Rightarrow> TSK_IMG_INFO option \<times> 'u world" where
  "call_img_open env req s =
     (case tsk_img_open env req of
        Inl e \<Rightarrow> (None, log_event (EvImgOpen req None) (s\<lparr>tsk_errno := e\<rparr>))
      | Inr h \<Rightarrow> (Some h, log_event (EvImgOpen req (Some h)) s))"

definition call_vs_open :: "'u env \<Rightarrow> TSK_IMG_INFO \<Rightarrow> TSK_OFF_T \<Rightarrow> 'u world \<Rightarrow> TSK_VS_INFO option \<times> 'u world" where
  "call_vs_open env img a_start s =
     (case tsk_vs_open env img a_start of
        Inl e \<Rightarrow> (None, log_event (EvVsOpen img a_start None) (s\<lparr>tsk_errno := e\<rparr>))
      | Inr v \<Rightarrow> (Some v, log_event (EvVsOpen img a_start (Some v)) s))"

definition call_fs_open_img :: "'u env \<Rightarrow> TSK_IMG_INFO \<Rightarrow> TSK_OFF_T \<Rightarrow> 'u world \<Rightarrow> TSK_FS_INFO option \<times> 'u world" where
  "call_fs_open_img env img a_start s =
     (case tsk_fs_open_img env img a_start of
        Inl e \<Rightarrow> (None, log_event (EvFsOpen img a_start None) (s\<lparr>tsk_errno := e\<rparr>))
      | Inr f \<Rightarrow> (Some f, log_event (EvFsOpen img a_start (Some f)) s))"

subsection \<open>Calls of the hooks\<close>

definition call_filterVol :: "'u env \<Rightarrow> TSK_VS_PART_INFO \<Rightarrow> 'u world \<Rightarrow> TSK_FILTER_ENUM \<times> 'u world" where
  "call_filterVol env a_vs_part s =
     (case filterVol env a_vs_part (user s) of
        (r, u) \<Rightarrow> (r, log_event (EvFilterVol a_vs_part r) (s\<lparr>user := u\<rparr>)))"

definition call_filterFs :: "'u env \<Rightarrow> TSK_FS_INFO \<Rightarrow> 'u world \<Rightarrow> TSK_FILTER_ENUM \<times> 'u world" where
  "call_filterFs env a_fs_info s =
     (case filterFs env a_fs_info (user s) of
        (r, u) \<Rightarrow> (r, log_event (EvFilterFs a_fs_info r) (s\<lparr>user := u\<rparr>)))"

definition call_processFile :: "'u env \<Rightarrow> TSK_FS_FILE \<Rightarrow> string \<Rightarrow> 'u world \<Rightarrow> TSK_RETVAL_ENUM \<times> 'u world" where
  "call_processFile env a_fs_file a_path s =
     (case processFile env a_fs_file a_path (user s) of
        (r, u) \<Rightarrow> (r, log_event (EvProcessFile a_fs_file a_path r) (s\<lparr>user := u\<rparr>)))"

definition call_processAttribute :: "'u env \<Rightarrow> TSK_FS_FILE \<Rightarrow> int \<Rightarrow> string \<Rightarrow> 'u world \<Rightarrow> TSK_RETVAL_ENUM \<times> 'u world" where
  "call_processAttribute env fs_file i path s =
     (case processAttribute env fs_file (tsk_fs_file_attr_get_idx env fs_file i) path (user s) of
        (r, u) \<Rightarrow> (r, log_event (EvProcessAttribute i r) (s\<lparr>user := u\<rparr>)))"

subsection \<open>Lifecycle of the session\<close>

text \<open>The constructor, lines 21-27, for a derived class that starts in state \<open>u\<close>.\<close>

definition TskAuto :: "'u \<Rightarrow> 'u world" where
  "TskAuto u =
     \<lparr>m_img_info = None, m_tag = TSK_AUTO_TAG, m_volFilterFlags = TSK_VS_PART_FLAG_ALLOC,
      m_fileFilterFlags = TSK_FS_DIR_WALK_FLAG_RECURSE, tsk_errno = 0, trace = [], user = u\<rparr>"

text \<open>\<^verbatim>\<open>closeImage\<close>, lines 67-74.\<close>

definition closeImage :: "'u world \<Rightarrow> 'u world" where
  "closeImage s =
     (case m_img_info s of
        None \<Rightarrow> s
      | Some h \<Rightarrow> (tsk_img_close h s)\<lparr>m_img_info := None\<rparr>)"



text \<open>\<^verbatim>\<open>openImage\<close>, lines 48-60.\<close>

definition openImage :: "'u env \<Rightarrow> img_request \<Rightarrow> 'u world \<Rightarrow> uint8_t \<times> 'u world" where
  "openImage env req s =
     (let s1 = (if m_img_info s \<noteq> None then closeImage s else s) in
      case call_img_open env req s1 of
        (h, s2) \<Rightarrow>
          (let s3 = s2\<lparr>m_img_info := h\<rparr> in
           if m_img_info s3 \<noteq> None then (0, s3) else (1, s3)))"

definition setVolFilterFlags :: "enum_flags \<Rightarrow> 'u world \<Rightarrow> 'u world" where
  "setVolFilterFlags vs_flags s = s\<lparr>m_volFilterFlags := vs_flags\<rparr>"

definition setFileFilterFlags :: "enum_flags \<Rightarrow> 'u world \<Rightarrow> 'u world" where
  "setFileFilterFlags file_flags s = s\<lparr>m_fileFilterFlags := file_flags\<rparr>"

subsection \<open>The directory-walk callback and the file-system walk\<close>

text \<open>
  \<^verbatim>\<open>dirWalkCb\<close>, lines 296-312.  The pointer \<^verbatim>\<open>a_ptr\<close> is the session, which is part of the
  state the callback receives.
\<close>

definition dirWalkCb :: "'u env \<Rightarrow> TSK_FS_FILE \<Rightarrow> string \<Rightarrow> 'u world \<Rightarrow> TSK_WALK_RET_ENUM \<times> 'u world" where
  "dirWalkCb env a_fs_file a_path s =
     (if m_tag s \<noteq> TSK_AUTO_TAG then (TSK_WALK_STOP, s)
      else
        case call_processFile env a_fs_file a_path s of
          (retval, s1) \<Rightarrow>
            if retval \<noteq> TSK_OK then
              (if retval = TSK_STOP then (TSK_WALK_STOP, s1) else (TSK_WALK_ERROR, s1))
            else (TSK_WALK_CONT, s1))"

text \<open>\<^verbatim>\<open>findFilesInFsInt\<close>, lines 318-338.\<close>

definition findFilesInFsInt :: "'u env \<Rightarrow> TSK_FS_INFO \<Rightarrow> TSK_INUM_T \<Rightarrow> 'u world \<Rightarrow> TSK_RETVAL_ENUM \<times> 'u world" where
  "findFilesInFsInt env a_fs_info a_inum s =
     (case call_filterFs env a_fs_info s of
        (retval, s1) \<Rightarrow>
          if retval = TSK_FILTER_STOP then (TSK_STOP, s1)
          else if retval = TSK_FILTER_SKIP then (TSK_OK, s1)
          else
            (let walk_flags = TSK_FS_DIR_WALK_FLAG_RECURSE OR m_fileFilterFlags s1 in
             case tsk_fs_dir_walk env a_fs_info a_inum walk_flags (dirWalkCb env)
                    (log_event (EvFsDirWalk a_fs_info a_inum walk_flags) s1) of
               (rc, s2) \<Rightarrow>
                 if rc \<noteq> 0 then (TSK_ERR, tsk_error_print s2) else (TSK_OK, s2)))"

text \<open>\<^verbatim>\<open>findFilesInFsRet\<close>, lines 209-232.\<close>

definition findFilesInFsRet :: "'u env \<Rightarrow> TSK_OFF_T \<Rightarrow> 'u world \<Rightarrow> TSK_RETVAL_ENUM \<times> 'u world" where
  "findFilesInFsRet env a_start s =
     (case m_img_info s of
        None \<Rightarrow> (TSK_ERR, s)
      | Some img \<Rightarrow>
          (case call_fs_open_img env img a_start s of
             (None, s1) \<Rightarrow> (TSK_ERR, tsk_error_print s1)
           | (Some fs, s1) \<Rightarrow>
               (case findFilesInFsInt env fs (root_inum fs) s1 of
                  (retval, s2) \<Rightarrow> (retval, tsk_fs_close fs s2))))"

text \<open>\<^verbatim>\<open>findFilesInFs(a_start)\<close>, lines 243-249.\<close>

definition findFilesInFs :: "'u env \<Rightarrow> TSK_OFF_T \<Rightarrow> 'u world \<Rightarrow> uint8_t \<times> 'u world" where
  "findFilesInFs env a_start s =
     (case findFilesInFsRet env a_start s of
        (retval, s1) \<Rightarrow> if retval = TSK_ERR then (1, s1) else (0, s1))"

text \<open>\<^verbatim>\<open>findFilesInFs(a_start, a_inum)\<close>, lines 263-289: the overload with a starting inode.\<close>

definition findFilesInFs_inum :: "'u env \<Rightarrow> TSK_OFF_T \<Rightarrow> TSK_INUM_T \<Rightarrow> 'u world \<Rightarrow> uint8_t \<times> 'u world" where
  "findFilesInFs_inum env a_start a_inum s =
     (case m_img_info s of
        None \<Rightarrow> (1, s)
      | Some img \<Rightarrow>
          (case call_fs_open_img env img a_start s of
             (None, s1) \<Rightarrow> (1, tsk_error_print s1)
           | (Some fs, s1) \<Rightarrow>
               (case findFilesInFsInt env fs a_inum s1 of
                  (retval, s2) \<Rightarrow>
                    (let s3 = tsk_fs_close fs s2 in
                     if retval = TSK_ERR then (1, s3) else (0, s3)))))"

subsection \<open>The volume-system callback and the volume-system walk\<close>

text \<open>
  \<^verbatim>\<open>vsWalkCb\<close>, lines 128-156.  The offset handed to the file-system walk is the product of
  the 64-bit \<open>start\<close> and the 32-bit \<open>block_size\<close>, computed in 64 bits.
\<close>

definition vsWalkCb :: "'u env \<Rightarrow> TSK_VS_INFO \<Rightarrow> TSK_VS_PART_INFO \<Rightarrow> 'u world \<Rightarrow> TSK_WALK_RET_ENUM \<times> 'u world" where
  "vsWalkCb env a_vs_info a_vs_part s =
     (if m_tag s \<noteq> TSK_AUTO_TAG then (TSK_WALK_STOP, s)
      else
        case call_filterVol env a_vs_part s of
          (retval1, s1) \<Rightarrow>
            if retval1 = TSK_FILTER_SKIP then (TSK_WALK_CONT, s1)
            else if retval1 = TSK_FILTER_STOP then (TSK_WALK_STOP, s1)
            else
              (case findFilesInFsRet env (start a_vs_part * ucast (block_size (vs a_vs_part))) s1 of
                 (retval2, s2) \<Rightarrow>
                   if retval2 = TSK_STOP then (TSK_WALK_STOP, s2)
                   else if retval2 \<noteq> TSK_OK then (TSK_WALK_CONT, tsk_error_reset s2)
                   else (TSK_WALK_CONT, s2)))"

text \<open>\<^verbatim>\<open>findFilesInVs\<close>, lines 166-199.\<close>

definition findFilesInVs :: "'u env \<Rightarrow> TSK_OFF_T \<Rightarrow> 'u world \<Rightarrow> uint8_t \<times> 'u world" where
  "findFilesInVs env a_start s =
     (case m_img_info s of
        None \<Rightarrow> (1, s)
      | Some img \<Rightarrow>
          (case call_vs_open env img a_start s of
             (None, s1) \<Rightarrow>
               (let s2 = (if tsk_verbose env
                          then log_event (EvStderr ''Error determining volume system -- trying file systems\<newline>'') s1
                          else s1);
                    s3 = tsk_error_reset s2 in
                case findFilesInFs env a_start s3 of
                  (r, s4) \<Rightarrow> if r \<noteq> 0 then (1, s4) else (0, s4))
           | (Some vs_info, s1) \<Rightarrow>
               (case tsk_vs_part_walk env vs_info 0 (part_count vs_info - 1) (m_volFilterFlags s1)
                       (vsWalkCb env)
                       (log_event (EvVsPartWalk vs_info 0 (part_count vs_info - 1) (m_volFilterFlags s1)) s1) of
                  (rc, s2) \<Rightarrow>
                    if rc \<noteq> 0 then (1, tsk_vs_close vs_info s2)
                    else (0, tsk_vs_close vs_info s2))))"

text \<open>\<^verbatim>\<open>findFilesInImg\<close>, lines 109-121.\<close>

definition findFilesInImg :: "'u env \<Rightarrow> 'u world \<Rightarrow> uint8_t \<times> 'u world" where
  "findFilesInImg env s =
     (case m_img_info s of
        None \<Rightarrow> (1, s)
      | Some img \<Rightarrow>
          (case findFilesInVs env 0 s of
             (r, s1) \<Rightarrow> if r \<noteq> 0 then (1, tsk_error_print s1) else (0, s1)))"

subsection \<open>The callbacks behind the untyped pointer\<close>



subsection \<open>Enumeration of the attributes of a file\<close>

text \<open>
  \<^verbatim>\<open>processAttributes\<close>, lines 349-361: the loop over \<open>i\<close>, from the index it has reached,
  and the method, which reads the count once and starts the loop at \<open>0\<close>.
\<close>

function processAttributes_from :: "'u env \<Rightarrow> TSK_FS_FILE \<Rightarrow> string \<Rightarrow> int \<Rightarrow> int \<Rightarrow> 'u world \<Rightarrow> TSK_RETVAL_ENUM \<times> 'u world" where
  "processAttributes_from env fs_file path count i s =
     (if i < count then
        (case call_processAttribute env fs_file i path s of
           (retval, s1) \<Rightarrow>
             if retval \<noteq> TSK_OK then (retval, s1)
             else processAttributes_from env fs_file path count (i + 1) s1)
      else (TSK_OK, s))"
  by pat_completeness auto
termination
  by (relation "measure (\<lambda>(env, fs_file, path, count, i, s). nat (count - i))") auto

definition processAttributes :: "'u env \<Rightarrow> TSK_FS_FILE \<Rightarrow> string \<Rightarrow> 'u world \<Rightarrow> TSK_RETVAL_ENUM \<times> 'u world" where
  "processAttributes env fs_file path s =
     processAttributes_from env fs_file path (tsk_fs_file_attr_getsize env fs_file) 0 s"

text \<open>
  The call of the hook that the loop body makes at index \<open>j\<close> (lines 355-356), on the state
  \<open>u\<close> of the derived class: the hook receives the attribute that
  \<^verbatim>\<open>tsk_fs_file_attr_get_idx\<close> returns for \<open>j\<close>.
\<close>

definition attr_call :: "'u env \<Rightarrow> TSK_FS_FILE \<Rightarrow> string \<Rightarrow> nat \<Rightarrow> 'u \<Rightarrow> TSK_RETVAL_ENUM \<times> 'u" where
  "attr_call env fs_file path j u =
     processAttribute env fs_file (tsk_fs_file_attr_get_idx env fs_file (int j)) path u"

text \<open>
  The state of the derived class once the hook has been called at the \<open>k\<close> indices
  \<open>n, n + 1, ..., n + k - 1\<close> in this order, starting from \<open>u\<close>.
\<close>

definition user_before :: "'u env \<Rightarrow> TSK_FS_FILE \<Rightarrow> string \<Rightarrow> nat \<Rightarrow> nat \<Rightarrow> 'u \<Rightarrow> 'u" where
  "user_before env fs_file path n k u =
     fold (\<lambda>j v. snd (attr_call env fs_file path j v)) [n..<n + k] u"

subsection \<open>An example image\<close>

text \<open>
  Modelled from the spec: the enumeration primitives of the C library (\<^verbatim>\<open>tsk_vs_part_walk\<close>,
  \<^verbatim>\<open>tsk_fs_dir_walk\<close>) are not among the sources.  The spec describes them as calls that
  invoke the callback once per partition, or once per directory entry, and obey its
  continuation signal: continue keeps walking, stop halts the walk, error aborts it.  The
  function below is that enumeration over a list of entries; it serves the example
  environment only, and every theorem is stated for an arbitrary environment.
\<close>

fun walk_entries :: "('a \<Rightarrow> 's \<Rightarrow> TSK_WALK_RET_ENUM \<times> 's) \<Rightarrow> 'a list \<Rightarrow> 's \<Rightarrow> uint8_t \<times> 's" where
  "walk_entries cb [] s = (0, s)"
| "walk_entries cb (x # xs) s =
     (case cb x s of
        (TSK_WALK_CONT, s1) \<Rightarrow> walk_entries cb xs s1
      | (TSK_WALK_STOP, s1) \<Rightarrow> (0, s1)
      | (TSK_WALK_ERROR, s1) \<Rightarrow> (1, s1))"

definition ex_vs :: TSK_VS_INFO where
  "ex_vs = \<lparr>vs_offset = 0, block_size = 512, part_count = 4\<rparr>"

definition ex_part :: "TSK_DADDR_T \<Rightarrow> TSK_VS_PART_INFO" where
  "ex_part a = \<lparr>vs = ex_vs, start = a, len = 1, part_flags = TSK_VS_PART_FLAG_ALLOC\<rparr>"

definition ex_fs :: "TSK_OFF_T \<Rightarrow> TSK_FS_INFO" where
  "ex_fs a = \<lparr>fs_offset = a, root_inum = 2, ftype = 1\<rparr>"

definition ex_name :: "string \<Rightarrow> enum_flags \<Rightarrow> TSK_FS_NAME" where
  "ex_name n t = \<lparr>name = n @ [NUL], name_size = length n + 1, meta_addr = 5, type = t,
                  flags = TSK_FS_NAME_FLAG_ALLOC\<rparr>"

definition ex_file :: "string \<Rightarrow> enum_flags \<Rightarrow> TSK_FS_FILE" where
  "ex_file n t = \<lparr>fs_name = Some (ex_name n t), fs_info = Some (ex_fs 1024)\<rparr>"

definition ex_entries :: "(TSK_FS_FILE \<times> string) list" where
  "ex_entries = [(ex_file ''a.txt'' TSK_FS_NAME_TYPE_REG, ''/''),
                 (ex_file ''docs'' TSK_FS_NAME_TYPE_DIR, ''/'')]"

definition ex_attrs :: "TSK_FS_ATTR list" where
  "ex_attrs = [\<lparr>attr_type = 1, attr_flags = 0\<rparr>, \<lparr>attr_type = 99, attr_flags = 0\<rparr>,
               \<lparr>attr_type = 1, attr_flags = 0\<rparr>]"

text \<open>
  An image with a volume system at offset 0 only and a file system at every offset but 512.
  The partition filter skips the partition that starts at block 10 and stops at the one that
  starts at block 11; the file-system filter stops at offset 1536 and skips offset 2048; the
  file hook counts its calls and stops or fails on the paths \<open>stop\<close> and \<open>bad\<close>; the attribute
  hook stops at an attribute of type 99.
\<close>

definition ex_env :: "nat env" where
  "ex_env =
     \<lparr>tsk_verbose = False,
      tsk_img_open = (\<lambda>req. if a_images req = [] then Inl 1 else Inr 7),
      tsk_vs_open = (\<lambda>img a. if a = 0 then Inr ex_vs else Inl 2),
      tsk_fs_open_img = (\<lambda>img a. if a = 512 then Inl 3 else Inr (ex_fs a)),
      tsk_vs_part_walk = (\<lambda>v first last fl cb s. walk_entries (cb v) (map ex_part [1, 2]) s),
      tsk_fs_dir_walk = (\<lambda>fs inum fl cb s. walk_entries (\<lambda>(f, p). cb f p) ex_entries s),
      tsk_fs_file_attr_getsize = (\<lambda>f. 3),
      tsk_fs_file_attr_get_idx =
        (\<lambda>f i. if 0 \<le> i \<and> i < 3 then Some (ex_attrs ! nat i) else None),
      filterVol = (\<lambda>p u. (if start p = 10 then TSK_FILTER_SKIP
                           else if start p = 11 then TSK_FILTER_STOP else TSK_FILTER_CONT, u)),
      filterFs = (\<lambda>fs u. (if fs_offset fs = 1536 then TSK_FILTER_STOP
                           else if fs_offset fs = 2048 then TSK_FILTER_SKIP
                           else TSK_FILTER_CONT, u)),
      processFile = (\<lambda>f p u. (if p = ''stop'' then TSK_STOP
                               else if p = ''bad'' then TSK_ERR else TSK_OK, Suc u)),
      processAttribute = (\<lambda>f a p u. (case a of None \<Rightarrow> TSK_ERR
                           | Some at \<Rightarrow> if attr_type at = 99 then TSK_STOP else TSK_OK, Suc u))\<rparr>"

text \<open>A session that has the image \<open>7\<close> open, and the same session before any image is open.\<close>

definition ex_session :: "nat world" where
  "ex_session = (TskAuto 0)\<lparr>m_img_info := Some 7\<rparr>"

definition ex_request :: img_request where
  "ex_request = \<lparr>a_numImg = 0, a_images = [], a_imgType = 0, a_sSize = 0\<rparr>"

text \<open>A regular file, allocated, whose name is a single dot.\<close>

definition ex_dot_file :: TSK_FS_FILE where
  "ex_dot_file =
     \<lparr>fs_name = Some \<lparr>name = [CHR ''.'', NUL], name_size = 2, meta_addr = 5,
                       type = TSK_FS_NAME_TYPE_REG, flags = TSK_FS_NAME_FLAG_ALLOC\<rparr>,
      fs_info = None\<rparr>"

section \<open>Properties\<close>

lemmas ex_defs =
  ex_env_def ex_session_def TskAuto_def ex_vs_def ex_part_def ex_fs_def ex_name_def ex_file_def
  ex_entries_def ex_attrs_def ex_request_def TSK_AUTO_TAG_def TSK_VS_PART_FLAG_ALLOC_def
  TSK_FS_DIR_WALK_FLAG_RECURSE_def TSK_FS_NAME_FLAG_ALLOC_def TSK_FS_NAME_TYPE_DIR_def
  TSK_FS_NAME_TYPE_REG_def

subsection \<open>The volume-system callback\<close>

text \<open>
  Claim C1.  For a session with a valid tag and a partition that the partition filter admits
  (\<^verbatim>\<open>filterVol\<close> returns \<^verbatim>\<open>TSK_FILTER_CONT\<close>), let \<open>retval2\<close> be what \<^verbatim>\<open>findFilesInFsRet\<close>
  returns at the byte offset of the partition.  If it is \<^verbatim>\<open>TSK_STOP\<close>, \<^verbatim>\<open>vsWalkCb\<close> returns
  \<^verbatim>\<open>TSK_WALK_STOP\<close>.  If it is any other value but \<^verbatim>\<open>TSK_OK\<close>, \<^verbatim>\<open>vsWalkCb\<close> resets the
  error slot and returns \<^verbatim>\<open>TSK_WALK_CONT\<close>.  For \<^verbatim>\<open>TSK_OK\<close> it returns \<^verbatim>\<open>TSK_WALK_CONT\<close>
  and leaves the error slot alone.
\<close>

theorem vsWalkCb_stop_and_error:
  assumes "m_tag s = TSK_AUTO_TAG"
    and "filterVol env a_vs_part (user s) = (TSK_FILTER_CONT, u)"
    and "findFilesInFsRet env (start a_vs_part * ucast (block_size (vs a_vs_part)))
           (s\<lparr>user := u, trace := trace s @ [EvFilterVol a_vs_part TSK_FILTER_CONT]\<rparr>)
         = (retval2, s2)"
  shows "vsWalkCb env a_vs_info a_vs_part s =
           (if retval2 = TSK_STOP then (TSK_WALK_STOP, s2)
            else if retval2 \<noteq> TSK_OK
              then (TSK_WALK_CONT, s2\<lparr>tsk_errno := 0, trace := trace s2 @ [EvErrorReset]\<rparr>)
              else (TSK_WALK_CONT, s2))"
  using assms by (simp add: vsWalkCb_def call_filterVol_def log_event_def tsk_error_reset_def)

text \<open>
  In the example image the partition at block 3 holds the file system whose filter stops,
  and the partition at block 1 holds no file system.
\<close>

theorem vsWalkCb_stop_and_error_witness:
  "fst (vsWalkCb ex_env ex_vs (ex_part 3) ex_session) = TSK_WALK_STOP
   \<and> fst (vsWalkCb ex_env ex_vs (ex_part 1) ex_session) = TSK_WALK_CONT
   \<and> tsk_errno (snd (vsWalkCb ex_env ex_vs (ex_part 1) ex_session)) = 0
   \<and> last (trace (snd (vsWalkCb ex_env ex_vs (ex_part 1) ex_session))) = EvErrorReset"
proof -
  have tag: "m_tag ex_session = TSK_AUTO_TAG"
    by (simp add: ex_defs)
  have f3: "filterVol ex_env (ex_part 3) (user ex_session) = (TSK_FILTER_CONT, 0)"
    by (simp add: ex_defs)
  have f1: "filterVol ex_env (ex_part 1) (user ex_session) = (TSK_FILTER_CONT, 0)"
    by (simp add: ex_defs)
  have r3: "findFilesInFsRet ex_env (start (ex_part 3) * ucast (block_size (vs (ex_part 3))))
              (ex_session\<lparr>user := 0, trace := trace ex_session @ [EvFilterVol (ex_part 3) TSK_FILTER_CONT]\<rparr>)
            = (TSK_STOP, ex_session\<lparr>trace := [EvFilterVol (ex_part 3) TSK_FILTER_CONT,
                  EvFsOpen 7 1536 (Some (ex_fs 1536)), EvFilterFs (ex_fs 1536) TSK_FILTER_STOP,
                  EvFsClose (ex_fs 1536)]\<rparr>)"
    by (simp add: ex_defs findFilesInFsRet_def call_fs_open_img_def findFilesInFsInt_def
        call_filterFs_def log_event_def tsk_fs_close_def)
  have r1: "findFilesInFsRet ex_env (start (ex_part 1) * ucast (block_size (vs (ex_part 1))))
              (ex_session\<lparr>user := 0, trace := trace ex_session @ [EvFilterVol (ex_part 1) TSK_FILTER_CONT]\<rparr>)
            = (TSK_ERR, ex_session\<lparr>tsk_errno := 3, trace := [EvFilterVol (ex_part 1) TSK_FILTER_CONT,
                  EvFsOpen 7 512 None, EvErrorPrint 3]\<rparr>)"
    by (simp add: ex_defs findFilesInFsRet_def call_fs_open_img_def log_event_def
        tsk_error_print_def)
  show ?thesis
    using vsWalkCb_stop_and_error [OF tag f3 r3, of ex_vs]
      vsWalkCb_stop_and_error [OF tag f1 r1, of ex_vs]
    by simp
qed

text \<open>
  Claim C4.  For a session with a valid tag, if \<^verbatim>\<open>filterVol\<close> returns \<^verbatim>\<open>TSK_FILTER_SKIP\<close> for
  the partition, \<^verbatim>\<open>vsWalkCb\<close> returns \<^verbatim>\<open>TSK_WALK_CONT\<close>, and if it returns
  \<^verbatim>\<open>TSK_FILTER_STOP\<close>, \<^verbatim>\<open>vsWalkCb\<close> returns \<^verbatim>\<open>TSK_WALK_STOP\<close>.  In both cases the call of the
  filter is the only call made: no file system is opened.
\<close>

theorem vsWalkCb_filter_skip_stop:
  assumes "m_tag s = TSK_AUTO_TAG"
    and "filterVol env a_vs_part (user s) = (v, u)"
    and "v = TSK_FILTER_SKIP \<or> v = TSK_FILTER_STOP"
  shows "vsWalkCb env a_vs_info a_vs_part s =
           (if v = TSK_FILTER_SKIP then TSK_WALK_CONT else TSK_WALK_STOP,
            s\<lparr>user := u, trace := trace s @ [EvFilterVol a_vs_part v]\<rparr>)"
  using assms by (auto simp add: vsWalkCb_def call_filterVol_def log_event_def)

theorem vsWalkCb_filter_skip_stop_witness:
  "vsWalkCb ex_env ex_vs (ex_part 10) ex_session =
     (TSK_WALK_CONT, ex_session\<lparr>trace := [EvFilterVol (ex_part 10) TSK_FILTER_SKIP]\<rparr>)
   \<and> vsWalkCb ex_env ex_vs (ex_part 11) ex_session =
     (TSK_WALK_STOP, ex_session\<lparr>trace := [EvFilterVol (ex_part 11) TSK_FILTER_STOP]\<rparr>)"
proof -
  have tag: "m_tag ex_session = TSK_AUTO_TAG"
    by (simp add: ex_defs)
  have skip: "filterVol ex_env (ex_part 10) (user ex_session) = (TSK_FILTER_SKIP, 0)"
    by (simp add: ex_defs)
  have stop: "filterVol ex_env (ex_part 11) (user ex_session) = (TSK_FILTER_STOP, 0)"
    by (simp add: ex_defs)
  show ?thesis
    using vsWalkCb_filter_skip_stop [OF tag skip, of ex_vs]
      vsWalkCb_filter_skip_stop [OF tag stop, of ex_vs]
    by (simp add: ex_session_def TskAuto_def)
qed

subsection \<open>The fallback of the volume-system walk\<close>

text \<open>
  Claim C2.  When an image is open and no volume system can be opened at \<open>a_start\<close>,
  \<^verbatim>\<open>findFilesInVs\<close> is \<^verbatim>\<open>findFilesInFs\<close> at the same offset, run from the state the failed
  probe leaves once the error slot has been reset: the same result, the same calls of the
  hooks and of the C library, the same final state.
\<close>

theorem findFilesInVs_falls_back_to_findFilesInFs:
  assumes "m_img_info s = Some img"
    and "tsk_vs_open env img a_start = Inl e"
  shows "findFilesInVs env a_start s =
           findFilesInFs env a_start
             (s\<lparr>tsk_errno := 0,
                trace := trace s @ [EvVsOpen img a_start None]
                  @ (if tsk_verbose env
                     then [EvStderr ''Error determining volume system -- trying file systems\<newline>'']
                     else [])
                  @ [EvErrorReset]\<rparr>)"
  using assms
  by (simp add: findFilesInVs_def call_vs_open_def log_event_def tsk_error_reset_def
      findFilesInFs_def split: prod.splits)

theorem findFilesInVs_falls_back_to_findFilesInFs_witness:
  "findFilesInVs ex_env 1024 ex_session =
     findFilesInFs ex_env 1024 (ex_session\<lparr>trace := [EvVsOpen 7 1024 None, EvErrorReset]\<rparr>)"
proof -
  have img: "m_img_info ex_session = Some 7"
    by (simp add: ex_defs)
  have vs: "tsk_vs_open ex_env 7 1024 = Inl 2"
    by (simp add: ex_defs)
  have quiet: "\<not> tsk_verbose ex_env"
    by (simp add: ex_defs)
  show ?thesis
    using findFilesInVs_falls_back_to_findFilesInFs [OF img vs] quiet
    by (simp add: ex_session_def TskAuto_def)
qed

subsection \<open>The directory-walk callback\<close>

text \<open>
  Claim C3.  For a session with a valid tag, \<^verbatim>\<open>dirWalkCb\<close> calls \<^verbatim>\<open>processFile\<close> once on the
  file it is given and maps its result \<open>r\<close>: \<^verbatim>\<open>TSK_OK\<close> to \<^verbatim>\<open>TSK_WALK_CONT\<close>, \<^verbatim>\<open>TSK_STOP\<close> to
  \<^verbatim>\<open>TSK_WALK_STOP\<close>, every other value to \<^verbatim>\<open>TSK_WALK_ERROR\<close>.
\<close>

theorem dirWalkCb_maps_hook_result:
  assumes "m_tag s = TSK_AUTO_TAG"
    and "processFile env a_fs_file a_path (user s) = (r, u)"
  shows "dirWalkCb env a_fs_file a_path s =
           (if r = TSK_OK then TSK_WALK_CONT
            else if r = TSK_STOP then TSK_WALK_STOP else TSK_WALK_ERROR,
            s\<lparr>user := u, trace := trace s @ [EvProcessFile a_fs_file a_path r]\<rparr>)"
  using assms by (simp add: dirWalkCb_def call_processFile_def log_event_def)

theorem dirWalkCb_maps_hook_result_witness:
  "fst (dirWalkCb ex_env ex_dot_file ''/'' ex_session) = TSK_WALK_CONT
   \<and> fst (dirWalkCb ex_env ex_dot_file ''stop'' ex_session) = TSK_WALK_STOP
   \<and> fst (dirWalkCb ex_env ex_dot_file ''bad'' ex_session) = TSK_WALK_ERROR"
proof -
  have tag: "m_tag ex_session = TSK_AUTO_TAG"
    by (simp add: ex_defs)
  have ok: "processFile ex_env ex_dot_file ''/'' (user ex_session) = (TSK_OK, 1)"
    by (simp add: ex_defs)
  have stop: "processFile ex_env ex_dot_file ''stop'' (user ex_session) = (TSK_STOP, 1)"
    by (simp add: ex_defs)
  have bad: "processFile ex_env ex_dot_file ''bad'' (user ex_session) = (TSK_ERR, 1)"
    by (simp add: ex_defs)
  show ?thesis
    using dirWalkCb_maps_hook_result [OF tag ok] dirWalkCb_maps_hook_result [OF tag stop]
      dirWalkCb_maps_hook_result [OF tag bad]
    by simp
qed

subsection \<open>The tag guard\<close>




subsection \<open>The file-system filter\<close>

text \<open>
  Claim C5.  Let an image be open and a file system \<open>fs\<close> open at \<open>a_start\<close>.  If \<^verbatim>\<open>filterFs\<close>
  returns \<^verbatim>\<open>TSK_FILTER_SKIP\<close> for it, \<^verbatim>\<open>findFilesInFsInt\<close> returns \<^verbatim>\<open>TSK_OK\<close>, and if it
  returns \<^verbatim>\<open>TSK_FILTER_STOP\<close>, \<^verbatim>\<open>findFilesInFsInt\<close> returns \<^verbatim>\<open>TSK_STOP\<close>; the call of the
  filter is the only call it makes, so no directory walk is started.  Both callers,
  \<^verbatim>\<open>findFilesInFsRet\<close> and \<^verbatim>\<open>findFilesInFs\<close> with an inode, open the file system, run the
  filter and close the handle as their last call.
\<close>

theorem filterFs_skip_stop_closes_handle:
  assumes "m_img_info s = Some img"
    and "tsk_fs_open_img env img a_start = Inr fs"
    and "filterFs env fs (user s) = (v, u)"
    and "v = TSK_FILTER_SKIP \<or> v = TSK_FILTER_STOP"
  shows "findFilesInFsInt env fs a_inum s =
           (if v = TSK_FILTER_SKIP then TSK_OK else TSK_STOP,
            s\<lparr>user := u, trace := trace s @ [EvFilterFs fs v]\<rparr>)
       \<and> findFilesInFsRet env a_start s =
           (if v = TSK_FILTER_SKIP then TSK_OK else TSK_STOP,
            s\<lparr>user := u,
              trace := trace s @ [EvFsOpen img a_start (Some fs), EvFilterFs fs v, EvFsClose fs]\<rparr>)
       \<and> findFilesInFs_inum env a_start a_inum s =
           (0, s\<lparr>user := u,
              trace := trace s @ [EvFsOpen img a_start (Some fs), EvFilterFs fs v, EvFsClose fs]\<rparr>)"
  using assms
  by (auto simp add: findFilesInFsInt_def findFilesInFsRet_def findFilesInFs_inum_def
      call_filterFs_def call_fs_open_img_def log_event_def tsk_fs_close_def)

theorem filterFs_skip_stop_closes_handle_witness:
  "findFilesInFsRet ex_env 2048 ex_session =
     (TSK_OK, ex_session\<lparr>trace := [EvFsOpen 7 2048 (Some (ex_fs 2048)),
        EvFilterFs (ex_fs 2048) TSK_FILTER_SKIP, EvFsClose (ex_fs 2048)]\<rparr>)
   \<and> findFilesInFsRet ex_env 1536 ex_session =
     (TSK_STOP, ex_session\<lparr>trace := [EvFsOpen 7 1536 (Some (ex_fs 1536)),
        EvFilterFs (ex_fs 1536) TSK_FILTER_STOP, EvFsClose (ex_fs 1536)]\<rparr>)
   \<and> fst (findFilesInFs_inum ex_env 1536 5 ex_session) = 0"
proof -
  have img: "m_img_info ex_session = Some 7"
    by (simp add: ex_defs)
  have o1: "tsk_fs_open_img ex_env 7 2048 = Inr (ex_fs 2048)"
    by (simp add: ex_defs)
  have o2: "tsk_fs_open_img ex_env 7 1536 = Inr (ex_fs 1536)"
    by (simp add: ex_defs)
  have skip: "filterFs ex_env (ex_fs 2048) (user ex_session) = (TSK_FILTER_SKIP, 0)"
    by (simp add: ex_defs)
  have stop: "filterFs ex_env (ex_fs 1536) (user ex_session) = (TSK_FILTER_STOP, 0)"
    by (simp add: ex_defs)
  show ?thesis
    using filterFs_skip_stop_closes_handle [OF img o1 skip, of 5]
      filterFs_skip_stop_closes_handle [OF img o2 stop, of 5]
    by (simp add: ex_session_def TskAuto_def)
qed

subsection \<open>Enumeration of attributes\<close>

lemma user_before_0: "user_before env f p n 0 u = u"
  by (simp add: user_before_def)

lemma user_before_Suc:
  "user_before env f p n (Suc k) u = user_before env f p (Suc n) k (snd (attr_call env f p n u))"
proof -
  have "[n..<n + Suc k] = n # [Suc n..<Suc n + k]"
    by (simp add: upt_conv_Cons)
  then show ?thesis by (simp add: user_before_def)
qed

lemma call_processAttribute_eq:
  "0 \<le> i \<Longrightarrow> call_processAttribute env f i p s =
     (fst (attr_call env f p (nat i) (user s)),
      s\<lparr>user := snd (attr_call env f p (nat i) (user s)),
        trace := trace s @ [EvProcessAttribute i (fst (attr_call env f p (nat i) (user s)))]\<rparr>)"
  by (simp add: call_processAttribute_def attr_call_def log_event_def split: prod.splits)

text \<open>
  The loop started at index \<open>i\<close>: the hook returns \<^verbatim>\<open>TSK_OK\<close> at the next \<open>k\<close> indices, each
  call made on the state the calls before it left; then either the count is reached, or the
  call at the next index returns the result \<open>r\<close> of the loop, which is not \<^verbatim>\<open>TSK_OK\<close>.
\<close>

lemma processAttributes_from_run:
  "processAttributes_from env f p count i s = (r, s') \<Longrightarrow> 0 \<le> i \<Longrightarrow>
   \<exists>k. (\<forall>j<k. fst (attr_call env f p (nat i + j) (user_before env f p (nat i) j (user s))) = TSK_OK)
     \<and> (if r = TSK_OK
         then int k = max 0 (count - i) \<and> user s' = user_before env f p (nat i) k (user s)
         else int k < count - i
              \<and> attr_call env f p (nat i + k) (user_before env f p (nat i) k (user s)) = (r, user s'))
     \<and> s' = s\<lparr>user := user s',
               trace := trace s @ map (\<lambda>j. EvProcessAttribute (i + int j) TSK_OK) [0..<k]
                     @ (if r = TSK_OK then [] else [EvProcessAttribute (i + int k) r])\<rparr>"
proof (induction env f p count i s rule: processAttributes_from.induct)
  case (1 env f p count i s)
  note nonneg = \<open>0 \<le> i\<close>
  show ?case
  proof (cases "i < count")
    case False
    with "1.prems" have "r = TSK_OK" "s' = s" by simp_all
    with False show ?thesis by (intro exI [of _ 0]) (simp add: user_before_0)
  next
    case True
    define retval where "retval = fst (attr_call env f p (nat i) (user s))"
    define u1 where "u1 = snd (attr_call env f p (nat i) (user s))"
    define s1 where "s1 = s\<lparr>user := u1, trace := trace s @ [EvProcessAttribute i retval]\<rparr>"
    have c: "call_processAttribute env f i p s = (retval, s1)"
      using call_processAttribute_eq [OF nonneg, of env f p s]
      by (simp add: retval_def u1_def s1_def)
    have ac: "attr_call env f p (nat i) (user s) = (retval, u1)"
      by (simp add: retval_def u1_def)
    show ?thesis
    proof (cases "retval = TSK_OK")
      case False
      with True c "1.prems" have "r = retval" "s' = s1" by simp_all
      with False True ac show ?thesis
        by (intro exI [of _ 0]) (simp add: user_before_0 s1_def)
    next
      case ok: True
      with True c "1.prems" have rec: "processAttributes_from env f p count (i + 1) s1 = (r, s')"
        by simp
      have n1: "nat (i + 1) = Suc (nat i)" using nonneg by simp
      from "1.IH" [OF True c [symmetric] _ rec] ok nonneg
      obtain k where
        all: "\<forall>j<k. fst (attr_call env f p (nat (i + 1) + j) (user_before env f p (nat (i + 1)) j (user s1))) = TSK_OK"
        and res: "if r = TSK_OK
           then int k = max 0 (count - (i + 1)) \<and> user s' = user_before env f p (nat (i + 1)) k (user s1)
           else int k < count - (i + 1)
              \<and> attr_call env f p (nat (i + 1) + k) (user_before env f p (nat (i + 1)) k (user s1)) = (r, user s')"
        and st: "s' = s1\<lparr>user := user s',
               trace := trace s1 @ map (\<lambda>j. EvProcessAttribute (i + 1 + int j) TSK_OK) [0..<k]
                     @ (if r = TSK_OK then [] else [EvProcessAttribute (i + 1 + int k) r])\<rparr>"
        by auto
      have us1: "user s1 = u1" by (simp add: s1_def)
      have shift: "\<And>m. user_before env f p (nat i) (Suc m) (user s) = user_before env f p (Suc (nat i)) m u1"
        by (simp add: user_before_Suc u1_def)
      have A: "\<forall>j<Suc k. fst (attr_call env f p (nat i + j) (user_before env f p (nat i) j (user s))) = TSK_OK"
      proof (intro allI impI)
        fix j assume j: "j < Suc k"
        show "fst (attr_call env f p (nat i + j) (user_before env f p (nat i) j (user s))) = TSK_OK"
        proof (cases j)
          case 0
          then show ?thesis using ok by (simp add: user_before_0 retval_def)
        next
          case (Suc m)
          with j have "m < k" by simp
          with all have "fst (attr_call env f p (nat (i + 1) + m) (user_before env f p (nat (i + 1)) m (user s1))) = TSK_OK"
            by blast
          then show ?thesis by (simp add: Suc shift n1 us1)
        qed
      qed
      have B: "if r = TSK_OK
         then int (Suc k) = max 0 (count - i) \<and> user s' = user_before env f p (nat i) (Suc k) (user s)
         else int (Suc k) < count - i
              \<and> attr_call env f p (nat i + Suc k) (user_before env f p (nat i) (Suc k) (user s)) = (r, user s')"
        using res True by (auto simp add: shift n1 us1 split: if_splits)
      have C: "s' = s\<lparr>user := user s',
               trace := trace s @ map (\<lambda>j. EvProcessAttribute (i + int j) TSK_OK) [0..<Suc k]
                     @ (if r = TSK_OK then [] else [EvProcessAttribute (i + int (Suc k)) r])\<rparr>"
      proof -
        have "s' = s1\<lparr>user := user s',
               trace := trace s1 @ map (\<lambda>j. EvProcessAttribute (i + 1 + int j) TSK_OK) [0..<k]
                     @ (if r = TSK_OK then [] else [EvProcessAttribute (i + 1 + int k) r])\<rparr>"
          by (rule st)
        also have "\<dots> = s\<lparr>user := user s',
               trace := trace s @ map (\<lambda>j. EvProcessAttribute (i + int j) TSK_OK) [0..<Suc k]
                     @ (if r = TSK_OK then [] else [EvProcessAttribute (i + int (Suc k)) r])\<rparr>"
          using ok by (simp add: s1_def map_upt_Suc add.assoc del: upt_Suc)
        finally show ?thesis .
      qed
      from A B C show ?thesis by blast
    qed
  qed
qed

text \<open>
  Claim C6.  Let \<open>A\<close> be the number of attributes \<^verbatim>\<open>tsk_fs_file_attr_getsize\<close> reports for the
  file.  \<^verbatim>\<open>processAttributes\<close> calls \<^verbatim>\<open>processAttribute\<close> on the attributes at the indices
  \<open>0, 1, 2, ...\<close> in this order, each call on the state the calls before it left.  For some
  \<open>k\<close> the calls at the indices below \<open>k\<close> all return \<^verbatim>\<open>TSK_OK\<close>, and either \<open>k = A\<close>, no
  further call is made and the method returns \<^verbatim>\<open>TSK_OK\<close>, or \<open>k < A\<close>, the call at index \<open>k\<close>
  returns a result \<open>r\<close> other than \<^verbatim>\<open>TSK_OK\<close>, no further call is made and the method returns
  that \<open>r\<close>.  The final state is the initial one with the state of the derived class as the
  last call left it and the log of exactly these calls.
\<close>

theorem processAttributes_enumerates:
  assumes "processAttributes env fs_file path s = (r, s')"
  shows "\<exists>k. (\<forall>j<k. fst (attr_call env fs_file path j (user_before env fs_file path 0 j (user s))) = TSK_OK)
     \<and> (if r = TSK_OK
         then k = nat (tsk_fs_file_attr_getsize env fs_file)
              \<and> user s' = user_before env fs_file path 0 k (user s)
         else k < nat (tsk_fs_file_attr_getsize env fs_file)
              \<and> attr_call env fs_file path k (user_before env fs_file path 0 k (user s)) = (r, user s'))
     \<and> s' = s\<lparr>user := user s',
               trace := trace s @ map (\<lambda>j. EvProcessAttribute (int j) TSK_OK) [0..<k]
                     @ (if r = TSK_OK then [] else [EvProcessAttribute (int k) r])\<rparr>"
proof -
  from assms
  have "processAttributes_from env fs_file path (tsk_fs_file_attr_getsize env fs_file) 0 s = (r, s')"
    by (simp add: processAttributes_def)
  from processAttributes_from_run [OF this] obtain k where
    a: "\<forall>j<k. fst (attr_call env fs_file path (nat 0 + j) (user_before env fs_file path (nat 0) j (user s))) = TSK_OK"
    and b: "if r = TSK_OK
         then int k = max 0 (tsk_fs_file_attr_getsize env fs_file - 0)
              \<and> user s' = user_before env fs_file path (nat 0) k (user s)
         else int k < tsk_fs_file_attr_getsize env fs_file - 0
              \<and> attr_call env fs_file path (nat 0 + k) (user_before env fs_file path (nat 0) k (user s)) = (r, user s')"
    and c: "s' = s\<lparr>user := user s',
               trace := trace s @ map (\<lambda>j. EvProcessAttribute (0 + int j) TSK_OK) [0..<k]
                     @ (if r = TSK_OK then [] else [EvProcessAttribute (0 + int k) r])\<rparr>"
    by auto
  from a have a': "\<forall>j<k. fst (attr_call env fs_file path j (user_before env fs_file path 0 j (user s))) = TSK_OK"
    by simp
  from b have b': "if r = TSK_OK
         then k = nat (tsk_fs_file_attr_getsize env fs_file)
              \<and> user s' = user_before env fs_file path 0 k (user s)
         else k < nat (tsk_fs_file_attr_getsize env fs_file)
              \<and> attr_call env fs_file path k (user_before env fs_file path 0 k (user s)) = (r, user s')"
    by (auto split: if_splits)
  from c have c': "s' = s\<lparr>user := user s',
               trace := trace s @ map (\<lambda>j. EvProcessAttribute (int j) TSK_OK) [0..<k]
                     @ (if r = TSK_OK then [] else [EvProcessAttribute (int k) r])\<rparr>"
    by (simp only: add_0)
  from a' b' c' show ?thesis by blast
qed

text \<open>
  In the example the file has three attributes and the hook stops at the second: the call at
  index 0 returns \<^verbatim>\<open>TSK_OK\<close>, the call at index 1 returns \<^verbatim>\<open>TSK_STOP\<close>, which is the result,
  and index 2 is never reached.
\<close>

theorem processAttributes_enumerates_witness:
  "processAttributes ex_env ex_dot_file ''/'' ex_session =
      (TSK_STOP, ex_session\<lparr>user := 2,
          trace := [EvProcessAttribute 0 TSK_OK, EvProcessAttribute 1 TSK_STOP]\<rparr>)
   \<and> (\<exists>k. k < 3
        \<and> attr_call ex_env ex_dot_file ''/'' k (user_before ex_env ex_dot_file ''/'' 0 k 0)
            = (TSK_STOP, 2))"
proof -
  have run: "processAttributes ex_env ex_dot_file ''/'' ex_session =
      (TSK_STOP, ex_session\<lparr>user := 2,
          trace := [EvProcessAttribute 0 TSK_OK, EvProcessAttribute 1 TSK_STOP]\<rparr>)"
    by (simp add: processAttributes_def call_processAttribute_def log_event_def ex_defs)
  have size: "nat (tsk_fs_file_attr_getsize ex_env ex_dot_file) = 3"
    by (simp add: ex_defs)
  have start: "user ex_session = 0"
    by (simp add: ex_defs)
  from processAttributes_enumerates [OF run] obtain k where
    "k < nat (tsk_fs_file_attr_getsize ex_env ex_dot_file)
     \<and> attr_call ex_env ex_dot_file ''/'' k
         (user_before ex_env ex_dot_file ''/'' 0 k (user ex_session))
       = (TSK_STOP, user (ex_session\<lparr>user := 2,
          trace := [EvProcessAttribute 0 TSK_OK, EvProcessAttribute 1 TSK_STOP]\<rparr>))"
    by auto
  then have "k < 3
     \<and> attr_call ex_env ex_dot_file ''/'' k (user_before ex_env ex_dot_file ''/'' 0 k 0)
       = (TSK_STOP, 2)"
    by (simp add: size start)
  with run show ?thesis by blast
qed

subsection \<open>Opening an image\<close>

text \<open>
  Claim C8.  The calls \<^verbatim>\<open>openImage\<close> makes are: one \<^verbatim>\<open>tsk_img_close\<close> of the handle the
  session holds, when it holds one, and none otherwise; then one \<^verbatim>\<open>tsk_img_open\<close>.  When the
  open fails, \<^verbatim>\<open>openImage\<close> returns 1 and the session holds no handle; when it succeeds,
  \<^verbatim>\<open>openImage\<close> returns 0 and the session holds the new handle.
\<close>

theorem openImage_closes_previous_once:
  "trace (snd (openImage env req s)) =
     trace s @ (case m_img_info s of None \<Rightarrow> [] | Some h \<Rightarrow> [EvImgClose h])
             @ [EvImgOpen req (m_img_info (snd (openImage env req s)))]
   \<and> (case tsk_img_open env req of
        Inl e \<Rightarrow> fst (openImage env req s) = 1 \<and> m_img_info (snd (openImage env req s)) = None
      | Inr h \<Rightarrow> fst (openImage env req s) = 0 \<and> m_img_info (snd (openImage env req s)) = Some h)"
  by (auto simp add: openImage_def closeImage_def call_img_open_def log_event_def tsk_img_close_def
      split: option.splits sum.splits)

theorem openImage_closes_previous_once_witness:
  "trace (snd (openImage ex_env ex_request ex_session)) = [EvImgClose 7, EvImgOpen ex_request None]
   \<and> fst (openImage ex_env ex_request ex_session) = 1
   \<and> m_img_info (snd (openImage ex_env ex_request ex_session)) = None"
proof -
  have fails: "tsk_img_open ex_env ex_request = Inl 1"
    by (simp add: ex_defs)
  have held: "m_img_info ex_session = Some 7" "trace ex_session = []"
    by (simp_all add: ex_defs)
  show ?thesis
    using openImage_closes_previous_once [of ex_env ex_request ex_session]
    by (simp add: fails held)
qed

subsection \<open>The entry points that return a byte\<close>

text \<open>
  Claim C10.  \<^verbatim>\<open>findFilesInFs(a_start)\<close> returns 1 when \<^verbatim>\<open>findFilesInFsRet\<close> returns
  \<^verbatim>\<open>TSK_ERR\<close> and 0 for every other result: for \<^verbatim>\<open>TSK_STOP\<close> it returns 0, as it does for
  \<^verbatim>\<open>TSK_OK\<close>.  \<^verbatim>\<open>findFilesInFs(a_start, a_inum)\<close> does the same with the result of
  \<^verbatim>\<open>findFilesInFsInt\<close> once the file system is open, and returns 1 when no image is open or
  no file system can be opened.
\<close>

theorem findFilesInFs_stop_is_success:
  "fst (findFilesInFs env a_start s) =
     (if fst (findFilesInFsRet env a_start s) = TSK_ERR then 1 else 0)
   \<and> (fst (findFilesInFsRet env a_start s) = TSK_STOP \<longrightarrow> fst (findFilesInFs env a_start s) = 0)
   \<and> (fst (findFilesInFsRet env a_start s) = TSK_OK \<longrightarrow> fst (findFilesInFs env a_start s) = 0)
   \<and> fst (findFilesInFs_inum env a_start a_inum s) =
       (case m_img_info s of
          None \<Rightarrow> 1
        | Some img \<Rightarrow>
            (case tsk_fs_open_img env img a_start of
               Inl e \<Rightarrow> 1
             | Inr fs \<Rightarrow>
                 if fst (findFilesInFsInt env fs a_inum
                           (s\<lparr>trace := trace s @ [EvFsOpen img a_start (Some fs)]\<rparr>)) = TSK_ERR
                 then 1 else 0))"
  by (simp add: findFilesInFs_def findFilesInFs_inum_def call_fs_open_img_def log_event_def
      split: prod.splits option.splits sum.splits)

theorem findFilesInFs_stop_is_success_witness:
  "fst (findFilesInFsRet ex_env 1536 ex_session) = TSK_STOP
   \<and> fst (findFilesInFs ex_env 1536 ex_session) = 0
   \<and> fst (findFilesInFs_inum ex_env 1536 5 ex_session) = 0"
proof -
  have stop: "fst (findFilesInFsRet ex_env 1536 ex_session) = TSK_STOP"
    by (simp add: findFilesInFsRet_def call_fs_open_img_def findFilesInFsInt_def
        call_filterFs_def log_event_def ex_defs)
  have img: "m_img_info ex_session = Some 7"
    by (simp add: ex_defs)
  have fs: "tsk_fs_open_img ex_env 7 1536 = Inr (ex_fs 1536)"
    by (simp add: ex_defs)
  have int: "fst (findFilesInFsInt ex_env (ex_fs 1536) 5
      (ex_session\<lparr>trace := trace ex_session @ [EvFsOpen 7 1536 (Some (ex_fs 1536))]\<rparr>)) = TSK_STOP"
    by (simp add: findFilesInFsInt_def call_filterFs_def log_event_def ex_defs)
  show ?thesis
    using findFilesInFs_stop_is_success [of ex_env 1536 ex_session 5]
    by (simp add: stop img fs int)
qed

subsection \<open>Dot entries\<close>

text \<open>
  \<^verbatim>\<open>isDotDir\<close> never reads the \<open>type\<close> field: two entries that differ in their type only get
  the same answer.
\<close>

lemma isDotDir_ignores_type:
  "isDotDir (Some (f\<lparr>fs_name := Some (n\<lparr>type := t\<rparr>)\<rparr>)) = isDotDir (Some (f\<lparr>fs_name := Some n\<rparr>))"
  by (simp add: isDotDir_def)

text \<open>
  Claim C9.  The claim is that \<^verbatim>\<open>isDotDir\<close> returns 1 exactly for a directory entry named
  \<open>.\<close> or \<open>..\<close>, and 0 for a non-directory entry of that name.  The source tests the
  allocation flags against \<^verbatim>\<open>TSK_FS_NAME_TYPE_DIR\<close> where \<^verbatim>\<open>isDir\<close> compares the type, so for
  the allocated regular file named \<open>.\<close> it returns 1, while \<^verbatim>\<open>isDir\<close> returns 0 and \<^verbatim>\<open>isFile\<close>
  returns 1 on the same entry.
\<close>

theorem isDotDir_regular_file_named_dot:
  "isDotDir (Some ex_dot_file) = 1
   \<and> isDir (Some ex_dot_file) = 0
   \<and> isFile (Some ex_dot_file) = 1
   \<and> (\<exists>n. fs_name ex_dot_file = Some n \<and> c_str (name n) = ''.''
          \<and> length (name n) = name_size n \<and> type n \<noteq> TSK_FS_NAME_TYPE_DIR)"
  by (simp add: isDotDir_def isDir_def isFile_def ex_dot_file_def c_str_def NUL_def
      TSK_FS_NAME_TYPE_DIR_def TSK_FS_NAME_TYPE_REG_def TSK_FS_NAME_FLAG_ALLOC_def)

end
